theory Spec2Isabelle
  imports Main "HOL-Library.Sublist"
begin

section \<open>Data\<close>

text \<open>
  The wallet kinds of \<open>providers/OrdConnectProvider\<close> (\<open>Wallet.UNISAT\<close>,
  \<open>Wallet.XVERSE\<close>), and the network, which the source only passes on to the
  wallet library.
\<close>

datatype Wallet = UNISAT | XVERSE

type_synonym Network = string

text \<open>
  One entry of the list a wallet library call returns: \<open>{address, publicKey, format}\<close>.
  The fields carry the prefix \<open>wa_\<close> because the store below has fields of the same
  names.
\<close>

record WalletAddress =
  wa_address :: string
  wa_publicKey :: string
  wa_format :: string

text \<open>
  The object literal \<open>{ordinals: ..., payments: ...}\<close> that the connect flows hand to
  \<open>updateAddress\<close>, \<open>updatePublicKey\<close> and \<open>updateFormat\<close>.
\<close>

record BiAddress =
  ordinals :: string
  payments :: string

text \<open>
  A thrown JavaScript error object. \<open>cls\<close> is what \<open>instanceof\<close> sees, \<open>name\<close> and
  \<open>message\<close> are the properties of the same names. Only error objects are modelled;
  a wallet library that throws a string or a plain object is outside this model.
\<close>

datatype error_class =
  BrowserWalletNotInstalledError | BrowserWalletRequestCancelledByUserError | Error

datatype js_error = Err (cls: error_class) (name: string) (message: string)

text \<open>\<open>new Error(msg)\<close> with a string argument.\<close>

definition new_Error :: "string \<Rightarrow> js_error" where
  "new_Error msg = Err Error ''Error'' msg"

text \<open>
  \<open>Error.prototype.toString\<close>: the name alone when the message is empty, the message
  alone when the name is empty, otherwise \<open>name + ": " + message\<close>.
\<close>

definition toString :: "js_error \<Rightarrow> string" where
  "toString e =
     (if name e = [] then message e
      else if message e = [] then name e
      else name e @ '': '' @ message e)"

text \<open>
  \<open>new Error(e)\<close> with an error object as argument, as in \<open>throw new Error(e)\<close> of
  \<open>signMsg\<close>: the constructor converts its argument to a string, so the message of
  the new error is \<open>toString e\<close>.
\<close>

definition new_Error_of :: "js_error \<Rightarrow> js_error" where
  "new_Error_of e = new_Error (toString e)"

text \<open>
  The \<open>TypeError\<close> of reading a property of \<open>undefined\<close>, raised by
  \<open>window.unisat.addListener\<close> when no extension has injected \<open>window.unisat\<close>.
\<close>

definition TypeError_undefined :: "string \<Rightarrow> js_error" where
  "TypeError_undefined prop =
     Err Error ''TypeError''
       (''Cannot read properties of undefined (reading '' @ [CHR 0x27] @ prop @ [CHR 0x27] @ '')'')"

text \<open>
  The calls that leave the page: the two address retrievals of the wallet library, its
  signing primitive, and the readiness wait. They are recorded in the order made, so
  that "no call was made" is a statement about the state.
\<close>

datatype call =
  GetUnisatAddresses Network "bool option"
  | GetXverseAddresses Network
  | WaitForUnisatExtensionReady
  | SignMessage string "Wallet option" string Network

text \<open>
  Modelled from the spec: the identity store. The provider that holds it
  (\<open>OrdConnectProvider\<close>, \<open>OrdContext\<close>) is not among the sources, which only read
  \<open>wallet\<close>, \<open>network\<close>, \<open>address\<close>, \<open>publicKey\<close> and \<open>format\<close> from it and test
  them for truthiness. By section 3 of the specification every identity value is
  either empty or populated: \<open>None\<close> is the empty (falsy) value, \<open>Some v\<close> the value
  \<open>v\<close> written by an update. \<open>activeListener\<close> is the specification's listener
  handle of the store ("at most one active").
\<close>

record store =
  wallet :: "Wallet option"
  network :: Network
  address :: "BiAddress option"
  publicKey :: "BiAddress option"
  format :: "BiAddress option"
  activeListener :: "nat option"

text \<open>
  The state of the page: the store, and
  \<^item> \<open>errorMessage\<close>: the \<open>useState\<close> cell of the wallet modal; \<open>isOpen\<close>: the modal's
    \<open>isOpen\<close> prop, which \<open>closeModal\<close> turns off.
  \<^item> \<open>error\<close>, \<open>isLoading\<close>: the \<open>useState\<close> cells of \<open>useSignMessage\<close>.
  \<^item> \<open>window_unisat\<close>: the injected \<open>window.unisat\<close>; \<open>None\<close> when no extension
    injected it, otherwise the callbacks registered for \<open>accountsChanged\<close>, oldest
    first. A callback is a closure, compared by identity: each is a number, and
    \<open>nextListener\<close> is the identity of the next closure to be created.
  \<^item> \<open>opened\<close>: the URLs given to \<open>window.open\<close>; \<open>console\<close>: what
    \<open>console.error\<close> logged; \<open>calls\<close>: the calls that left the page.
\<close>

record world = store +
  errorMessage :: string
  isOpen :: bool
  error :: "string option"
  isLoading :: bool
  window_unisat :: "nat list option"
  nextListener :: nat
  opened :: "string list"
  console :: "(Wallet \<times> js_error) list"
  calls :: "call list"

text \<open>The store as a value of its own: the page state without everything else.\<close>

definition identity_store :: "world \<Rightarrow> store" where
  "identity_store s = store.truncate s"

text \<open>The six identity fields of the specification's data model, read off the store.\<close>

definition paymentAddress :: "world \<Rightarrow> string option" where
  "paymentAddress s = map_option payments (address s)"

definition ordinalAddress :: "world \<Rightarrow> string option" where
  "ordinalAddress s = map_option ordinals (address s)"

definition paymentPublicKey :: "world \<Rightarrow> string option" where
  "paymentPublicKey s = map_option payments (publicKey s)"

definition ordinalPublicKey :: "world \<Rightarrow> string option" where
  "ordinalPublicKey s = map_option ordinals (publicKey s)"

definition paymentFormat :: "world \<Rightarrow> string option" where
  "paymentFormat s = map_option payments (format s)"

definition ordinalFormat :: "world \<Rightarrow> string option" where
  "ordinalFormat s = map_option ordinals (format s)"

definition identity_fields :: "world \<Rightarrow> string option list" where
  "identity_fields s =
     [paymentAddress s, paymentPublicKey s, paymentFormat s,
      ordinalAddress s, ordinalPublicKey s, ordinalFormat s]"

text \<open>
  \<open>populated\<close> is the truthiness of a value read from the provider: the value is set.
  \<open>populated_count\<close> counts the fields whose value is set, whatever the string, and
  \<open>identity_empty\<close> says that none is: every field is cleared.
\<close>

fun populated :: "'a option \<Rightarrow> bool" where
  "populated None = False"
| "populated (Some _) = True"

definition populated_count :: "world \<Rightarrow> nat" where
  "populated_count s = length (filter populated (identity_fields s))"

definition identity_empty :: "world \<Rightarrow> bool" where
  "identity_empty s = (populated_count s = 0)"

text \<open>The fully empty store: no identity field populated and no connected wallet.\<close>

definition store_empty :: "world \<Rightarrow> bool" where
  "store_empty s = (identity_empty s \<and> wallet s = None)"

text \<open>
  A single identity field by its content: it is populated when it holds a non-empty
  string. A field of a cleared cell and a field that was written with the empty string
  are both empty, as both are falsy to a consumer. \<open>fields_populated\<close> is the number of
  the six fields that are populated.
\<close>

fun field_populated :: "string option \<Rightarrow> bool" where
  "field_populated None = False"
| "field_populated (Some v) = (v \<noteq> [])"

definition fields_populated :: "world \<Rightarrow> nat" where
  "fields_populated s = length (filter field_populated (identity_fields s))"

text \<open>A wallet entry with a non-empty address, public key and format.\<close>

definition complete_entry :: "WalletAddress \<Rightarrow> bool" where
  "complete_entry a = (wa_address a \<noteq> [] \<and> wa_publicKey a \<noteq> [] \<and> wa_format a \<noteq> [])"

section \<open>The injected wallet object\<close>

text \<open>
  \<open>window.unisat\<close> is the extension's object, an event emitter. \<open>removeListener\<close>
  takes out the most recently added registration of the given callback and does
  nothing when the callback is not registered; \<open>addListener\<close> appends.
\<close>

definition removeListener :: "nat \<Rightarrow> nat list \<Rightarrow> nat list" where
  "removeListener l ls = rev (remove1 l (rev ls))"

definition addListener :: "nat \<Rightarrow> nat list \<Rightarrow> nat list" where
  "addListener l ls = ls @ [l]"

text \<open>
  An \<open>accountsChanged\<close> event invokes every registered callback once: the result is
  the list of callbacks invoked.
\<close>

definition emit_accountsChanged :: "world \<Rightarrow> nat list" where
  "emit_accountsChanged s = (case window_unisat s of None \<Rightarrow> [] | Some ls \<Rightarrow> ls)"

section \<open>The provider\<close>

text \<open>
  \<open>updateAddress\<close>, \<open>updatePublicKey\<close>, \<open>updateFormat\<close>, \<open>updateWallet\<close> and
  \<open>disconnectWallet\<close> belong to the provider, which is not among the sources; the
  source only calls them.
\<close>

text \<open>
  Modelled from the spec: \<open>updateAddress\<close> of the provider writes its argument to
  the store (section 4.2, step 4).
\<close>

definition updateAddress :: "BiAddress \<Rightarrow> world \<Rightarrow> world" where
  "updateAddress a s = s\<lparr>address := Some a\<rparr>"

text \<open>Modelled from the spec: \<open>updatePublicKey\<close> of the provider, likewise.\<close>

definition updatePublicKey :: "BiAddress \<Rightarrow> world \<Rightarrow> world" where
  "updatePublicKey k s = s\<lparr>publicKey := Some k\<rparr>"

text \<open>Modelled from the spec: \<open>updateFormat\<close> of the provider, likewise.\<close>

definition updateFormat :: "BiAddress \<Rightarrow> world \<Rightarrow> world" where
  "updateFormat f s = s\<lparr>format := Some f\<rparr>"

text \<open>Modelled from the spec: \<open>updateWallet\<close> of the provider, likewise.\<close>

definition updateWallet :: "Wallet \<Rightarrow> world \<Rightarrow> world" where
  "updateWallet w s = s\<lparr>wallet := Some w\<rparr>"

text \<open>
  Modelled from the spec: the first half of \<open>disconnectWallet\<close>, which "deregisters
  the active listener (if any)" (section 4.2). The connect flows of the source register
  their callback on \<open>window.unisat\<close> themselves and never hand it to the provider, so
  they never set \<open>activeListener\<close>.
\<close>

definition deregisterActiveListener :: "world \<Rightarrow> world" where
  "deregisterActiveListener s =
     (case activeListener s of
        None \<Rightarrow> s
      | Some h \<Rightarrow>
          s\<lparr>window_unisat := map_option (removeListener h) (window_unisat s),
            activeListener := None\<rparr>)"

text \<open>
  Modelled from the spec: \<open>disconnectWallet\<close> of the provider "deregisters the active
  listener (if any), clears the Identity Store", and calling it twice is the same as
  calling it once (section 4.2). The network stays.
\<close>

definition disconnectWallet :: "world \<Rightarrow> world" where
  "disconnectWallet s =
     (deregisterActiveListener s)
       \<lparr>address := None, publicKey := None, format := None, wallet := None\<rparr>"

section \<open>The wallet modal\<close>

definition WALLET_CHROME_EXTENSION_URL :: "Wallet \<Rightarrow> string" where
  "WALLET_CHROME_EXTENSION_URL w =
     (case w of
        UNISAT \<Rightarrow> ''https://unisat.io/download''
      | XVERSE \<Rightarrow> ''https://www.xverse.app/download'')"

definition setErrorMessage :: "string \<Rightarrow> world \<Rightarrow> world" where
  "setErrorMessage m s = s\<lparr>errorMessage := m\<rparr>"

definition closeModal :: "world \<Rightarrow> world" where
  "closeModal s = s\<lparr>isOpen := False\<rparr>"

definition window_open :: "string \<Rightarrow> world \<Rightarrow> world" where
  "window_open url s = s\<lparr>opened := opened s @ [url]\<rparr>"

definition console_error :: "Wallet \<Rightarrow> js_error \<Rightarrow> world \<Rightarrow> world" where
  "console_error w err s = s\<lparr>console := console s @ [(w, err)]\<rparr>"

definition record_call :: "call \<Rightarrow> world \<Rightarrow> world" where
  "record_call c s = s\<lparr>calls := calls s @ [c]\<rparr>"

text \<open>
  \<open>onError\<close>: open the install page for a wallet that is not installed, record the
  message, log, disconnect. The message of an error object is never nullish, so
  \<open>err.message ?? err.toString()\<close> is \<open>err.message\<close>.
\<close>

definition onError :: "Wallet \<Rightarrow> js_error \<Rightarrow> world \<Rightarrow> world" where
  "onError walletProvider err s =
     (let s1 = (if cls err = BrowserWalletNotInstalledError
                then window_open (WALLET_CHROME_EXTENSION_URL walletProvider) s
                else s);
          s2 = setErrorMessage (message err) s1;
          s3 = console_error walletProvider err s2
      in disconnectWallet s3)"

text \<open>The errors the two connect flows throw themselves.\<close>

definition EmptyResponse :: "Wallet \<Rightarrow> js_error" where
  "EmptyResponse w =
     (case w of
        UNISAT \<Rightarrow> new_Error ''Unisat via Ordit returned no addresses.''
      | XVERSE \<Rightarrow> new_Error ''Xverse via Ordit returned no addresses.'')"

definition IncompleteAddressSet :: js_error where
  "IncompleteAddressSet =
     new_Error ''Xverse via Ordit did not return P2SH or Taproot addresses.''"

text \<open>
  The first \<open>try\<close> of \<open>onConnectUnisatWallet\<close>: remove the callback \<open>listener\<close>. With
  no \<open>window.unisat\<close> the call throws, and the \<open>catch\<close> ignores it.
\<close>

definition removeListener_silently :: "nat \<Rightarrow> world \<Rightarrow> world" where
  "removeListener_silently listener s =
     (case window_unisat s of
        None \<Rightarrow> s
      | Some ls \<Rightarrow> s\<lparr>window_unisat := Some (removeListener listener ls)\<rparr>)"

text \<open>
  The body of the second \<open>try\<close> of \<open>onConnectUnisatWallet\<close>. \<open>r\<close> is what
  \<open>await getUnisatAddresses(network, readOnly)\<close> gives: a thrown error, or the returned
  value (\<open>None\<close> for a null or undefined one). The result is the error thrown out of
  the body, if any, with the state at that moment.
\<close>

definition onConnectUnisatWallet_try ::
  "bool option \<Rightarrow> js_error + WalletAddress list option \<Rightarrow> nat \<Rightarrow> world
     \<Rightarrow> js_error option \<times> world" where
  "onConnectUnisatWallet_try readOnly r listener s =
     (let s1 = setErrorMessage [] s;
          s2 = record_call (GetUnisatAddresses (network s1) readOnly) s1
      in case r of
           Inl err \<Rightarrow> (Some err, s2)
         | Inr None \<Rightarrow> (Some (EmptyResponse UNISAT), disconnectWallet s2)
         | Inr (Some []) \<Rightarrow> (Some (EmptyResponse UNISAT), disconnectWallet s2)
         | Inr (Some (unisatWallet # _)) \<Rightarrow>
             (let s3 = updateAddress
                         \<lparr>ordinals = wa_address unisatWallet,
                          payments = wa_address unisatWallet\<rparr> s2;
                  s4 = updatePublicKey
                         \<lparr>ordinals = wa_publicKey unisatWallet,
                          payments = wa_publicKey unisatWallet\<rparr> s3;
                  s5 = updateWallet UNISAT s4;
                  s6 = updateFormat
                         \<lparr>ordinals = wa_format unisatWallet,
                          payments = wa_format unisatWallet\<rparr> s5
              in case window_unisat s6 of
                   None \<Rightarrow> (Some (TypeError_undefined ''addListener''), s6)
                 | Some ls \<Rightarrow>
                     (None, closeModal (s6\<lparr>window_unisat := Some (addListener listener ls)\<rparr>))))"

text \<open>
  \<open>onConnectUnisatWallet\<close>: every call creates its own closure \<open>listener\<close>, tries to
  remove it, runs the body, and on an error calls \<open>onError\<close> and returns false.
\<close>

definition onConnectUnisatWallet ::
  "bool option \<Rightarrow> js_error + WalletAddress list option \<Rightarrow> world \<Rightarrow> bool \<times> world" where
  "onConnectUnisatWallet readOnly r s =
     (let listener = nextListener s;
          s0 = s\<lparr>nextListener := Suc listener\<rparr>;
          s1 = removeListener_silently listener s0
      in case onConnectUnisatWallet_try readOnly r listener s1 of
           (None, s') \<Rightarrow> (True, s')
         | (Some err, s') \<Rightarrow> (False, onError UNISAT err s'))"

text \<open>The body of the \<open>try\<close> of \<open>onConnectXverseWallet\<close>, in the same way.\<close>

definition onConnectXverseWallet_try ::
  "js_error + WalletAddress list option \<Rightarrow> world \<Rightarrow> js_error option \<times> world" where
  "onConnectXverseWallet_try r s =
     (let s1 = setErrorMessage [] s;
          s2 = record_call (GetXverseAddresses (network s1)) s1
      in case r of
           Inl err \<Rightarrow> (Some err, s2)
         | Inr None \<Rightarrow> (Some (EmptyResponse XVERSE), disconnectWallet s2)
         | Inr (Some []) \<Rightarrow> (Some (EmptyResponse XVERSE), disconnectWallet s2)
         | Inr (Some (x # xs)) \<Rightarrow>
             (case (List.find (\<lambda>walletAddress. wa_format walletAddress = ''p2sh-p2wpkh'') (x # xs),
                    List.find (\<lambda>walletAddress. wa_format walletAddress = ''taproot'') (x # xs)) of
                (Some p2sh, Some taproot) \<Rightarrow>
                  (let s3 = updateAddress
                              \<lparr>ordinals = wa_address taproot, payments = wa_address p2sh\<rparr> s2;
                       s4 = updatePublicKey
                              \<lparr>ordinals = wa_publicKey taproot, payments = wa_publicKey p2sh\<rparr> s3;
                       s5 = updateWallet XVERSE s4;
                       s6 = updateFormat
                              \<lparr>ordinals = wa_format taproot, payments = wa_format p2sh\<rparr> s5
                   in (None, closeModal s6))
              | _ \<Rightarrow> (Some IncompleteAddressSet, s2)))"

definition onConnectXverseWallet ::
  "js_error + WalletAddress list option \<Rightarrow> world \<Rightarrow> bool \<times> world" where
  "onConnectXverseWallet r s =
     (case onConnectXverseWallet_try r s of
        (None, s') \<Rightarrow> (True, s')
      | (Some err, s') \<Rightarrow> (False, onError XVERSE err s'))"

text \<open>
  The effect that runs once when the modal is mounted. \<open>isUnisatExtensionReady\<close> is
  what \<open>await waitForUnisatExtensionReady()\<close> gives, a parameter here: the function
  (\<open>utils/unisat\<close>) is not among the sources, and by section 4.2 of the specification
  it is a bounded wait that ends with the extension ready (true) or with the timeout
  reached (false). \<open>r\<close> is what the wallet library gives to the read-only connect.
\<close>

definition connectToUnisatWalletOnLoad ::
  "bool \<Rightarrow> js_error + WalletAddress list option \<Rightarrow> world \<Rightarrow> world" where
  "connectToUnisatWalletOnLoad isUnisatExtensionReady r s =
     (let s1 = record_call WaitForUnisatExtensionReady s
      in if \<not> isUnisatExtensionReady then disconnectWallet s1
         else snd (onConnectUnisatWallet (Some True) r s1))"

definition reconnect_guard :: "world \<Rightarrow> bool" where
  "reconnect_guard s =
     (wallet s = Some UNISAT \<and> populated (address s) \<and> populated (publicKey s)
      \<and> populated (format s))"

definition useEffect_onLoad ::
  "bool \<Rightarrow> js_error + WalletAddress list option \<Rightarrow> world \<Rightarrow> world" where
  "useEffect_onLoad isUnisatExtensionReady r s =
     (if reconnect_guard s then connectToUnisatWalletOnLoad isUnisatExtensionReady r s
      else s)"

section \<open>The signing hook\<close>

definition setError :: "string option \<Rightarrow> world \<Rightarrow> world" where
  "setError e s = s\<lparr>error := e\<rparr>"

definition setIsLoading :: "bool \<Rightarrow> world \<Rightarrow> world" where
  "setIsLoading b s = s\<lparr>isLoading := b\<rparr>"

definition NoWalletConnected :: js_error where
  "NoWalletConnected = new_Error ''No wallet is connected''"

text \<open>The \<open>catch\<close> of \<open>signMsg\<close>: record the message, clear the busy flag, throw anew.\<close>

definition signMsg_catch :: "js_error \<Rightarrow> world \<Rightarrow> (js_error + string) \<times> world" where
  "signMsg_catch e s = (Inl (new_Error_of e), setIsLoading False (setError (Some (message e)) s))"

text \<open>
  \<open>signMsg\<close>. \<open>r\<close> is what \<open>await signMessage({address, wallet, message, network})\<close>
  gives: a thrown error or the signature. The result is the error thrown to the caller
  or the signature returned.
\<close>

definition signMsg ::
  "string \<Rightarrow> string \<Rightarrow> js_error + string \<Rightarrow> world \<Rightarrow> (js_error + string) \<times> world" where
  "signMsg addr msg r s =
     (let s1 = setIsLoading True s;
          s2 = setError None s1
      in if \<not> populated (format s2) \<or> \<not> populated (publicKey s2)
         then signMsg_catch NoWalletConnected s2
         else
           (let s3 = record_call (SignMessage addr (wallet s2) msg (network s2)) s2
            in case r of
                 Inl e \<Rightarrow> signMsg_catch e s3
               | Inr signedMessage \<Rightarrow> (Inr signedMessage, setIsLoading False s3)))"

section \<open>Failure of a connect flow\<close>

text \<open>
  The error that reaches the \<open>catch\<close> of \<open>onConnectUnisatWallet\<close> (of
  \<open>onConnectXverseWallet\<close>), if any: a connect flow fails exactly when its \<open>try\<close> body
  throws.
\<close>

definition onConnectUnisatWallet_thrown ::
  "bool option \<Rightarrow> js_error + WalletAddress list option \<Rightarrow> world \<Rightarrow> js_error option" where
  "onConnectUnisatWallet_thrown readOnly r s =
     fst (onConnectUnisatWallet_try readOnly r (nextListener s)
            (removeListener_silently (nextListener s) (s\<lparr>nextListener := Suc (nextListener s)\<rparr>)))"

definition onConnectXverseWallet_thrown ::
  "js_error + WalletAddress list option \<Rightarrow> world \<Rightarrow> js_error option" where
  "onConnectXverseWallet_thrown r s = fst (onConnectXverseWallet_try r s)"

text \<open>
  The entries of the wallet's answer that a connect flow writes to the store: the first
  entry for Unisat (\<open>unisat[0]\<close>); for Xverse the first entry of format
  \<open>p2sh-p2wpkh\<close> and the first of format \<open>taproot\<close>, when both are found.
\<close>

definition unisat_entries_used :: "js_error + WalletAddress list option \<Rightarrow> WalletAddress list" where
  "unisat_entries_used r =
     (case r of
        Inr (Some (unisatWallet # _)) \<Rightarrow> [unisatWallet]
      | _ \<Rightarrow> [])"

definition xverse_entries_used :: "js_error + WalletAddress list option \<Rightarrow> WalletAddress list" where
  "xverse_entries_used r =
     (case r of
        Inr (Some xverse) \<Rightarrow>
          (case (List.find (\<lambda>walletAddress. wa_format walletAddress = ''p2sh-p2wpkh'') xverse,
                 List.find (\<lambda>walletAddress. wa_format walletAddress = ''taproot'') xverse) of
             (Some p2sh, Some taproot) \<Rightarrow> [p2sh, taproot]
           | _ \<Rightarrow> [])
      | _ \<Rightarrow> [])"

section \<open>Example states\<close>

text \<open>
  A freshly loaded page with the Unisat extension injected, nothing connected and the
  modal open; the wallet entry of the specification's example; a page reloaded with a
  persisted Unisat session, and one with a persisted Xverse session.
\<close>

definition page0 :: world where
  "page0 =
     \<lparr>wallet = None, network = ''mainnet'', address = None, publicKey = None, format = None,
      activeListener = None, errorMessage = [], isOpen = True, error = None,
      isLoading = False, window_unisat = Some [], nextListener = 0, opened = [],
      console = [], calls = []\<rparr>"

definition b1 :: WalletAddress where
  "b1 = \<lparr>wa_address = ''b1'', wa_publicKey = ''pk1'', wa_format = ''taproot''\<rparr>"

definition a1 :: WalletAddress where
  "a1 = \<lparr>wa_address = ''a1'', wa_publicKey = ''pk0'', wa_format = ''p2sh-p2wpkh''\<rparr>"

definition page_unisat :: world where
  "page_unisat =
     page0\<lparr>wallet := Some UNISAT,
       address := Some \<lparr>ordinals = ''b1'', payments = ''b1''\<rparr>,
       publicKey := Some \<lparr>ordinals = ''pk1'', payments = ''pk1''\<rparr>,
       format := Some \<lparr>ordinals = ''taproot'', payments = ''taproot''\<rparr>,
       isOpen := False\<rparr>"

definition page_xverse :: world where
  "page_xverse =
     page0\<lparr>wallet := Some XVERSE,
       address := Some \<lparr>ordinals = ''b1'', payments = ''a1''\<rparr>,
       publicKey := Some \<lparr>ordinals = ''pk1'', payments = ''pk0''\<rparr>,
       format := Some \<lparr>ordinals = ''taproot'', payments = ''p2sh-p2wpkh''\<rparr>,
       isOpen := False\<rparr>"

section \<open>Basic facts\<close>

lemmas provider_defs =
  updateAddress_def updatePublicKey_def updateFormat_def updateWallet_def
  deregisterActiveListener_def disconnectWallet_def

lemmas modal_defs =
  setErrorMessage_def closeModal_def window_open_def console_error_def record_call_def
  removeListener_silently_def

lemmas identity_defs =
  paymentAddress_def ordinalAddress_def paymentPublicKey_def ordinalPublicKey_def
  paymentFormat_def ordinalFormat_def identity_fields_def populated_count_def
  identity_empty_def store_empty_def

text \<open>What \<open>disconnectWallet\<close> and \<open>onError\<close> leave in each field.\<close>

lemma disconnectWallet_fields:
  "address (disconnectWallet s) = None" "publicKey (disconnectWallet s) = None"
  "format (disconnectWallet s) = None" "wallet (disconnectWallet s) = None"
  "errorMessage (disconnectWallet s) = errorMessage s"
  "console (disconnectWallet s) = console s" "opened (disconnectWallet s) = opened s"
  "isOpen (disconnectWallet s) = isOpen s" "calls (disconnectWallet s) = calls s"
  "network (disconnectWallet s) = network s"
  by (simp_all add: provider_defs split: option.splits)

lemma store_empty_disconnectWallet: "store_empty (disconnectWallet s)"
  by (simp add: identity_defs disconnectWallet_fields)

lemma onError_fields:
  "address (onError w e s) = None" "publicKey (onError w e s) = None"
  "format (onError w e s) = None" "wallet (onError w e s) = None"
  "errorMessage (onError w e s) = message e"
  "console (onError w e s) = console s @ [(w, e)]"
  "opened (onError w e s) =
     (if cls e = BrowserWalletNotInstalledError
      then opened s @ [WALLET_CHROME_EXTENSION_URL w] else opened s)"
  "isOpen (onError w e s) = isOpen s" "calls (onError w e s) = calls s"
  by (simp_all add: onError_def Let_def modal_defs disconnectWallet_fields)

lemma store_empty_onError: "store_empty (onError w e s)"
  by (simp add: identity_defs onError_fields)

text \<open>
  A failing \<open>try\<close> body leaves the log, the opened pages and the modal alone, and a
  connect returns true exactly when its body throws nothing.
\<close>

lemma unisat_try_frame:
  "onConnectUnisatWallet_try ro r l s = (Some e, s') \<Longrightarrow>
     console s' = console s \<and> opened s' = opened s \<and> isOpen s' = isOpen s"
  by (auto simp: onConnectUnisatWallet_try_def Let_def modal_defs provider_defs disconnectWallet_fields
      split: sum.splits option.splits list.splits)

lemma unisat_thrown_None_iff:
  "fst (onConnectUnisatWallet ro r s) = (onConnectUnisatWallet_thrown ro r s = None)"
  by (simp add: onConnectUnisatWallet_def onConnectUnisatWallet_thrown_def Let_def
      split: prod.splits option.splits)

lemma xverse_thrown_None_iff:
  "fst (onConnectXverseWallet r s) = (onConnectXverseWallet_thrown r s = None)"
  by (simp add: onConnectXverseWallet_def onConnectXverseWallet_thrown_def
      split: prod.splits option.splits)

text \<open>A failed connect is \<open>onError\<close> applied to the state the body left.\<close>

lemma unisat_failure:
  assumes "onConnectUnisatWallet_thrown ro r s = Some err"
  shows "\<exists>s1. console s1 = console s \<and> opened s1 = opened s \<and> isOpen s1 = isOpen s
           \<and> onConnectUnisatWallet ro r s = (False, onError UNISAT err s1)"
proof -
  let ?l = "nextListener s"
  let ?s0 = "removeListener_silently ?l (s\<lparr>nextListener := Suc ?l\<rparr>)"
  obtain e s1 where t: "onConnectUnisatWallet_try ro r ?l ?s0 = (e, s1)"
    by (cases "onConnectUnisatWallet_try ro r ?l ?s0")
  with assms have e: "e = Some err"
    by (simp add: onConnectUnisatWallet_thrown_def)
  have "console s1 = console ?s0 \<and> opened s1 = opened ?s0 \<and> isOpen s1 = isOpen ?s0"
    using t e unisat_try_frame by blast
  moreover have "console ?s0 = console s \<and> opened ?s0 = opened s \<and> isOpen ?s0 = isOpen s"
    by (simp add: removeListener_silently_def split: option.splits)
  moreover have "onConnectUnisatWallet ro r s = (False, onError UNISAT err s1)"
    using t e by (simp add: onConnectUnisatWallet_def Let_def)
  ultimately show ?thesis by auto
qed

lemma xverse_try_frame:
  "onConnectXverseWallet_try r s = (Some e, s') \<Longrightarrow>
     console s' = console s \<and> opened s' = opened s \<and> isOpen s' = isOpen s"
  by (auto simp: onConnectXverseWallet_try_def Let_def modal_defs disconnectWallet_fields
      split: sum.splits option.splits list.splits prod.splits)

lemma xverse_failure:
  assumes "onConnectXverseWallet_thrown r s = Some err"
  shows "\<exists>s1. console s1 = console s \<and> opened s1 = opened s \<and> isOpen s1 = isOpen s
           \<and> onConnectXverseWallet r s = (False, onError XVERSE err s1)"
proof -
  obtain e s1 where t: "onConnectXverseWallet_try r s = (e, s1)"
    by (cases "onConnectXverseWallet_try r s")
  with assms have e: "e = Some err"
    by (simp add: onConnectXverseWallet_thrown_def)
  have "console s1 = console s \<and> opened s1 = opened s \<and> isOpen s1 = isOpen s"
    using t e xverse_try_frame by blast
  moreover have "onConnectXverseWallet r s = (False, onError XVERSE err s1)"
    using t e by (simp add: onConnectXverseWallet_def)
  ultimately show ?thesis by auto
qed

lemmas error_defs = new_Error_def EmptyResponse_def IncompleteAddressSet_def
  NoWalletConnected_def new_Error_of_def toString_def TypeError_undefined_def

text \<open>A successful Unisat connect, as one update of the state.\<close>

lemma unisat_success:
  "window_unisat s = Some ls \<Longrightarrow>
   onConnectUnisatWallet ro (Inr (Some (a # as))) s =
     (True,
      s\<lparr>nextListener := Suc (nextListener s),
        window_unisat := Some (addListener (nextListener s) (removeListener (nextListener s) ls)),
        errorMessage := [],
        calls := calls s @ [GetUnisatAddresses (network s) ro],
        address := Some \<lparr>ordinals = wa_address a, payments = wa_address a\<rparr>,
        publicKey := Some \<lparr>ordinals = wa_publicKey a, payments = wa_publicKey a\<rparr>,
        wallet := Some UNISAT,
        format := Some \<lparr>ordinals = wa_format a, payments = wa_format a\<rparr>,
        isOpen := False\<rparr>)"
  by (simp add: onConnectUnisatWallet_def onConnectUnisatWallet_try_def Let_def modal_defs
      provider_defs)

text \<open>
  The six fields by content. After \<open>onError\<close>, and in any state whose identity is
  empty, no field is populated; a state written from two complete entries has all six
  populated. A connect that returns false ends in \<open>onError\<close>; one that returns true
  has written the three values from the entries it used.
\<close>

lemma fields_populated_cleared:
  "address s = None \<Longrightarrow> publicKey s = None \<Longrightarrow> format s = None \<Longrightarrow> fields_populated s = 0"
  by (simp add: fields_populated_def identity_fields_def paymentAddress_def ordinalAddress_def
      paymentPublicKey_def ordinalPublicKey_def paymentFormat_def ordinalFormat_def)

lemma fields_populated_onError: "fields_populated (onError w e s) = 0"
  by (simp add: fields_populated_cleared onError_fields)

lemma identity_empty_fields_populated: "identity_empty s \<Longrightarrow> fields_populated s = 0"
  by (cases "address s"; cases "publicKey s"; cases "format s")
     (simp_all add: identity_defs fields_populated_def)

lemma fields_populated_le: "fields_populated s \<le> populated_count s"
  by (cases "address s"; cases "publicKey s"; cases "format s")
     (simp_all add: identity_defs fields_populated_def)

lemma fields_populated_written:
  assumes "address s = Some \<lparr>ordinals = wa_address t, payments = wa_address p\<rparr>"
    and "publicKey s = Some \<lparr>ordinals = wa_publicKey t, payments = wa_publicKey p\<rparr>"
    and "format s = Some \<lparr>ordinals = wa_format t, payments = wa_format p\<rparr>"
    and "complete_entry t" and "complete_entry p"
  shows "fields_populated s = 6"
  using assms
  by (simp add: fields_populated_def identity_fields_def paymentAddress_def ordinalAddress_def
      paymentPublicKey_def ordinalPublicKey_def paymentFormat_def ordinalFormat_def
      complete_entry_def)

lemma unisat_false:
  assumes "\<not> fst (onConnectUnisatWallet ro r s)"
  shows "fields_populated (snd (onConnectUnisatWallet ro r s)) = 0"
proof -
  from assms obtain err where "onConnectUnisatWallet_thrown ro r s = Some err"
    by (auto simp: unisat_thrown_None_iff)
  then obtain s1 where "onConnectUnisatWallet ro r s = (False, onError UNISAT err s1)"
    using unisat_failure by blast
  then show ?thesis by (simp add: fields_populated_onError)
qed

lemma xverse_false:
  assumes "\<not> fst (onConnectXverseWallet r s)"
  shows "fields_populated (snd (onConnectXverseWallet r s)) = 0"
proof -
  from assms obtain err where "onConnectXverseWallet_thrown r s = Some err"
    by (auto simp: xverse_thrown_None_iff)
  then obtain s1 where "onConnectXverseWallet r s = (False, onError XVERSE err s1)"
    using xverse_failure by blast
  then show ?thesis by (simp add: fields_populated_onError)
qed

lemma unisat_true:
  assumes "fst (onConnectUnisatWallet ro r s)"
  shows "\<exists>a as. r = Inr (Some (a # as))
          \<and> address (snd (onConnectUnisatWallet ro r s))
              = Some \<lparr>ordinals = wa_address a, payments = wa_address a\<rparr>
          \<and> publicKey (snd (onConnectUnisatWallet ro r s))
              = Some \<lparr>ordinals = wa_publicKey a, payments = wa_publicKey a\<rparr>
          \<and> format (snd (onConnectUnisatWallet ro r s))
              = Some \<lparr>ordinals = wa_format a, payments = wa_format a\<rparr>"
  using assms
  by (auto simp: onConnectUnisatWallet_def onConnectUnisatWallet_try_def Let_def modal_defs
      provider_defs split: sum.splits option.splits list.splits)

lemma xverse_true:
  assumes "fst (onConnectXverseWallet r s)"
  shows "\<exists>xs p t. r = Inr (Some xs)
          \<and> List.find (\<lambda>walletAddress. wa_format walletAddress = ''p2sh-p2wpkh'') xs = Some p
          \<and> List.find (\<lambda>walletAddress. wa_format walletAddress = ''taproot'') xs = Some t
          \<and> address (snd (onConnectXverseWallet r s))
              = Some \<lparr>ordinals = wa_address t, payments = wa_address p\<rparr>
          \<and> publicKey (snd (onConnectXverseWallet r s))
              = Some \<lparr>ordinals = wa_publicKey t, payments = wa_publicKey p\<rparr>
          \<and> format (snd (onConnectXverseWallet r s))
              = Some \<lparr>ordinals = wa_format t, payments = wa_format p\<rparr>"
  using assms
  by (auto simp del: find.simps simp add: onConnectXverseWallet_def onConnectXverseWallet_try_def
      Let_def modal_defs provider_defs split: sum.splits option.splits list.splits)

lemma find_format_None:
  "(List.find (\<lambda>walletAddress. wa_format walletAddress = f) xs = None) = (f \<notin> wa_format ` set xs)"
  by (auto simp: find_None_iff)

lemma xverse_thrown_incomplete:
  assumes "xs \<noteq> []"
    and "''p2sh-p2wpkh'' \<notin> wa_format ` set xs \<or> ''taproot'' \<notin> wa_format ` set xs"
  shows "onConnectXverseWallet_thrown (Inr (Some xs)) s = Some IncompleteAddressSet"
proof -
  obtain y ys where xs: "xs = y # ys" using assms(1) by (cases xs) auto
  have "List.find (\<lambda>walletAddress. wa_format walletAddress = ''p2sh-p2wpkh'') (y # ys) = None
        \<or> List.find (\<lambda>walletAddress. wa_format walletAddress = ''taproot'') (y # ys) = None"
    using assms(2) unfolding xs find_format_None .
  then show ?thesis
    unfolding onConnectXverseWallet_thrown_def onConnectXverseWallet_try_def xs
    by (auto simp del: find.simps simp add: Let_def split: option.splits)
qed

lemma xverse_thrown_empty:
  "onConnectXverseWallet_thrown (Inr (Some [])) s = Some (EmptyResponse XVERSE)"
  by (simp add: onConnectXverseWallet_thrown_def onConnectXverseWallet_try_def Let_def)

lemma removeListener_absent: "l \<notin> set ls \<Longrightarrow> removeListener l ls = ls"
  by (simp add: removeListener_def remove1_idem)


text \<open>\<open>signMsg\<close> never writes to the store, whatever the signing primitive gives.\<close>

lemma signMsg_keeps_store: "identity_store (snd (signMsg addr msg r s)) = identity_store s"
  by (simp add: signMsg_def signMsg_catch_def Let_def setError_def setIsLoading_def
      record_call_def identity_store_def store.defs split: sum.splits)

text \<open>The modelled \<open>disconnectWallet\<close> is idempotent, as the specification asks.\<close>

lemma disconnectWallet_idempotent: "disconnectWallet (disconnectWallet s) = disconnectWallet s"
  by (simp add: provider_defs split: option.splits)

text \<open>When the guard of the mount effect holds, the readiness wait is started.\<close>

lemma reconnect_guard_waits:
  "reconnect_guard s \<Longrightarrow>
     take (Suc (length (calls s))) (calls (useEffect_onLoad ready r s))
       = calls s @ [WaitForUnisatExtensionReady]"
  by (auto simp: useEffect_onLoad_def connectToUnisatWalletOnLoad_def Let_def
      onConnectUnisatWallet_def onConnectUnisatWallet_try_def modal_defs onError_fields
      disconnectWallet_fields provider_defs
      split: prod.splits option.splits sum.splits list.splits)

section \<open>Claims\<close>

text \<open>
  C1: after two sequential successful connect calls to Unisat at most one
  account-change callback should be registered, so that an \<open>accountsChanged\<close> event
  invokes exactly one callback. The source does try to deregister first, but the
  callback it removes is the closure created by the very same call, which was never
  registered; the callback of the earlier call stays. Evaluated on a fresh page with
  the wallet returning the same single entry twice: both calls succeed, two callbacks
  are registered afterwards, and an event invokes two.
\<close>

theorem two_connects_register_two_listeners:
  "fst (onConnectUnisatWallet None (Inr (Some [b1])) page0)
   \<and> fst (onConnectUnisatWallet None (Inr (Some [b1]))
            (snd (onConnectUnisatWallet None (Inr (Some [b1])) page0)))
   \<and> window_unisat
        (snd (onConnectUnisatWallet None (Inr (Some [b1]))
               (snd (onConnectUnisatWallet None (Inr (Some [b1])) page0)))) = Some [0, 1]
   \<and> length (emit_accountsChanged
        (snd (onConnectUnisatWallet None (Inr (Some [b1]))
               (snd (onConnectUnisatWallet None (Inr (Some [b1])) page0))))) = 2"
  by (simp add: onConnectUnisatWallet_def onConnectUnisatWallet_try_def Let_def modal_defs
      provider_defs page0_def b1_def addListener_def removeListener_def
      emit_accountsChanged_def)

text \<open>
  The same for any state: a successful Unisat connect removes nothing and adds its own
  new callback, whenever the callbacks registered so far are older closures.
\<close>

lemma unisat_success_listeners:
  assumes "window_unisat s = Some ls" and "nextListener s \<notin> set ls"
  shows "window_unisat (snd (onConnectUnisatWallet ro (Inr (Some (a # as))) s))
           = Some (ls @ [nextListener s])"
  using assms by (simp add: unisat_success removeListener_absent addListener_def)

text \<open>
  C2: every connect invocation that fails, for either wallet kind and at any step of
  the flow, ends with the store fully empty (no identity field populated, no connected
  wallet), with the message of the error recorded as the user-facing error message (and
  the error logged), and returns false.
\<close>

theorem connect_failure_clears_store:
  "(onConnectUnisatWallet_thrown readOnly r s = Some err \<longrightarrow>
      \<not> fst (onConnectUnisatWallet readOnly r s)
      \<and> store_empty (snd (onConnectUnisatWallet readOnly r s))
      \<and> errorMessage (snd (onConnectUnisatWallet readOnly r s)) = message err
      \<and> console (snd (onConnectUnisatWallet readOnly r s)) = console s @ [(UNISAT, err)])
   \<and> (onConnectXverseWallet_thrown r s = Some err \<longrightarrow>
      \<not> fst (onConnectXverseWallet r s)
      \<and> store_empty (snd (onConnectXverseWallet r s))
      \<and> errorMessage (snd (onConnectXverseWallet r s)) = message err
      \<and> console (snd (onConnectXverseWallet r s)) = console s @ [(XVERSE, err)])"
proof (intro conjI impI)
  assume "onConnectUnisatWallet_thrown readOnly r s = Some err"
  then obtain s1 where s1: "console s1 = console s"
    and c: "onConnectUnisatWallet readOnly r s = (False, onError UNISAT err s1)"
    using unisat_failure by blast
  show "\<not> fst (onConnectUnisatWallet readOnly r s)" by (simp add: c)
  show "store_empty (snd (onConnectUnisatWallet readOnly r s))"
    by (simp add: c store_empty_onError)
  show "errorMessage (snd (onConnectUnisatWallet readOnly r s)) = message err"
    by (simp add: c onError_fields)
  show "console (snd (onConnectUnisatWallet readOnly r s)) = console s @ [(UNISAT, err)]"
    by (simp add: c s1 onError_fields)
next
  assume "onConnectXverseWallet_thrown r s = Some err"
  then obtain s1 where s1: "console s1 = console s"
    and c: "onConnectXverseWallet r s = (False, onError XVERSE err s1)"
    using xverse_failure by blast
  show "\<not> fst (onConnectXverseWallet r s)" by (simp add: c)
  show "store_empty (snd (onConnectXverseWallet r s))"
    by (simp add: c store_empty_onError)
  show "errorMessage (snd (onConnectXverseWallet r s)) = message err"
    by (simp add: c onError_fields)
  show "console (snd (onConnectXverseWallet r s)) = console s @ [(XVERSE, err)]"
    by (simp add: c s1 onError_fields)
qed

theorem connect_failure_clears_store_witness:
  "onConnectUnisatWallet_thrown None (Inr (Some [])) page0 = Some (EmptyResponse UNISAT)
   \<and> \<not> fst (onConnectUnisatWallet None (Inr (Some [])) page0)
   \<and> store_empty (snd (onConnectUnisatWallet None (Inr (Some [])) page0))
   \<and> errorMessage (snd (onConnectUnisatWallet None (Inr (Some [])) page0))
       = ''Unisat via Ordit returned no addresses.''
   \<and> onConnectXverseWallet_thrown (Inr (Some [a1])) page0 = Some IncompleteAddressSet
   \<and> \<not> fst (onConnectXverseWallet (Inr (Some [a1])) page0)
   \<and> store_empty (snd (onConnectXverseWallet (Inr (Some [a1])) page0))
   \<and> errorMessage (snd (onConnectXverseWallet (Inr (Some [a1])) page0))
       = ''Xverse via Ordit did not return P2SH or Taproot addresses.''"
proof -
  have u: "onConnectUnisatWallet_thrown None (Inr (Some [])) page0 = Some (EmptyResponse UNISAT)"
    by (simp add: onConnectUnisatWallet_thrown_def onConnectUnisatWallet_try_def Let_def)
  have x: "onConnectXverseWallet_thrown (Inr (Some [a1])) page0 = Some IncompleteAddressSet"
    by (simp add: onConnectXverseWallet_thrown_def onConnectXverseWallet_try_def Let_def a1_def)
  have mu: "message (EmptyResponse UNISAT) = ''Unisat via Ordit returned no addresses.''"
    by (simp add: error_defs)
  have mx: "message IncompleteAddressSet
              = ''Xverse via Ordit did not return P2SH or Taproot addresses.''"
    by (simp add: error_defs)
  show ?thesis
    using u x mu mx
      connect_failure_clears_store [of None "Inr (Some [])" page0 "EmptyResponse UNISAT"]
      connect_failure_clears_store [of None "Inr (Some [a1])" page0 IncompleteAddressSet]
    by simp
qed

text \<open>
  C3, as amended: after every connect invocation, successful or failed, for either
  wallet kind, in which the entries the flow writes to the store (the first Unisat
  entry; the \<open>p2sh-p2wpkh\<close> and \<open>taproot\<close> entries of Xverse) have a non-empty
  address, public key and format, the six identity fields are all populated (the connect
  returned true) or all empty (it returned false): never exactly one to five of them
  are populated.
\<close>

theorem connect_all_or_nothing:
  "(list_all complete_entry (unisat_entries_used r) \<longrightarrow>
      fields_populated (snd (onConnectUnisatWallet readOnly r s))
        = (if fst (onConnectUnisatWallet readOnly r s) then 6 else 0))
   \<and> (list_all complete_entry (xverse_entries_used r) \<longrightarrow>
      fields_populated (snd (onConnectXverseWallet r s))
        = (if fst (onConnectXverseWallet r s) then 6 else 0))"
proof (intro conjI impI)
  assume c: "list_all complete_entry (unisat_entries_used r)"
  show "fields_populated (snd (onConnectUnisatWallet readOnly r s))
          = (if fst (onConnectUnisatWallet readOnly r s) then 6 else 0)"
  proof (cases "fst (onConnectUnisatWallet readOnly r s)")
    case True
    then obtain a as where r: "r = Inr (Some (a # as))"
      and w: "address (snd (onConnectUnisatWallet readOnly r s))
                = Some \<lparr>ordinals = wa_address a, payments = wa_address a\<rparr>"
         "publicKey (snd (onConnectUnisatWallet readOnly r s))
                = Some \<lparr>ordinals = wa_publicKey a, payments = wa_publicKey a\<rparr>"
         "format (snd (onConnectUnisatWallet readOnly r s))
                = Some \<lparr>ordinals = wa_format a, payments = wa_format a\<rparr>"
      using unisat_true by blast
    from c r have "complete_entry a" by (simp add: unisat_entries_used_def)
    then show ?thesis using True fields_populated_written [OF w] by simp
  next
    case False
    then show ?thesis by (simp add: unisat_false)
  qed
next
  assume c: "list_all complete_entry (xverse_entries_used r)"
  show "fields_populated (snd (onConnectXverseWallet r s))
          = (if fst (onConnectXverseWallet r s) then 6 else 0)"
  proof (cases "fst (onConnectXverseWallet r s)")
    case True
    then obtain xs p t where r: "r = Inr (Some xs)"
      and f: "List.find (\<lambda>walletAddress. wa_format walletAddress = ''p2sh-p2wpkh'') xs = Some p"
         "List.find (\<lambda>walletAddress. wa_format walletAddress = ''taproot'') xs = Some t"
      and w: "address (snd (onConnectXverseWallet r s))
                = Some \<lparr>ordinals = wa_address t, payments = wa_address p\<rparr>"
         "publicKey (snd (onConnectXverseWallet r s))
                = Some \<lparr>ordinals = wa_publicKey t, payments = wa_publicKey p\<rparr>"
         "format (snd (onConnectXverseWallet r s))
                = Some \<lparr>ordinals = wa_format t, payments = wa_format p\<rparr>"
      using xverse_true by blast
    from c r f have "complete_entry t" "complete_entry p"
      by (simp_all add: xverse_entries_used_def)
    then show ?thesis using True fields_populated_written [OF w] by simp
  next
    case False
    then show ?thesis by (simp add: xverse_false)
  qed
qed

theorem connect_all_or_nothing_witness:
  "list_all complete_entry (unisat_entries_used (Inr (Some [b1])))
   \<and> fst (onConnectUnisatWallet None (Inr (Some [b1])) page0)
   \<and> fields_populated (snd (onConnectUnisatWallet None (Inr (Some [b1])) page0)) = 6
   \<and> list_all complete_entry (xverse_entries_used (Inr (Some [a1, b1])))
   \<and> fst (onConnectXverseWallet (Inr (Some [a1, b1])) page0)
   \<and> fields_populated (snd (onConnectXverseWallet (Inr (Some [a1, b1])) page0)) = 6
   \<and> list_all complete_entry (xverse_entries_used (Inr (Some [a1])))
   \<and> \<not> fst (onConnectXverseWallet (Inr (Some [a1])) page_xverse)
   \<and> fields_populated (snd (onConnectXverseWallet (Inr (Some [a1])) page_xverse)) = 0"
proof -
  have u: "list_all complete_entry (unisat_entries_used (Inr (Some [b1])))"
    by (simp add: unisat_entries_used_def complete_entry_def b1_def)
  have x: "list_all complete_entry (xverse_entries_used (Inr (Some [a1, b1])))"
    by (simp add: xverse_entries_used_def complete_entry_def a1_def b1_def)
  have y: "list_all complete_entry (xverse_entries_used (Inr (Some [a1])))"
    by (simp add: xverse_entries_used_def complete_entry_def a1_def)
  have fu: "fst (onConnectUnisatWallet None (Inr (Some [b1])) page0)"
    by (simp add: onConnectUnisatWallet_def onConnectUnisatWallet_try_def Let_def modal_defs
        provider_defs page0_def)
  have fx: "fst (onConnectXverseWallet (Inr (Some [a1, b1])) page0)"
    by (simp add: onConnectXverseWallet_def onConnectXverseWallet_try_def Let_def a1_def b1_def)
  have fy: "\<not> fst (onConnectXverseWallet (Inr (Some [a1])) page_xverse)"
    by (simp add: onConnectXverseWallet_def onConnectXverseWallet_try_def Let_def a1_def)
  show ?thesis
    using u x y fu fx fy
      connect_all_or_nothing [of "Inr (Some [b1])" None page0]
      connect_all_or_nothing [of "Inr (Some [a1, b1])" None page0]
      connect_all_or_nothing [of "Inr (Some [a1])" None page_xverse]
    by simp
qed

text \<open>
  C3 as stated fails: the connect flows copy the entry they are given without looking
  at its content. A Unisat entry with an empty public key makes the connect succeed
  with four of the six fields populated and the two public keys empty.
\<close>

theorem connect_partial_identity_counterexample:
  "fst (onConnectUnisatWallet None (Inr (Some [b1\<lparr>wa_publicKey := []\<rparr>])) page0)
   \<and> paymentAddress (snd (onConnectUnisatWallet None (Inr (Some [b1\<lparr>wa_publicKey := []\<rparr>])) page0))
       = Some ''b1''
   \<and> paymentPublicKey (snd (onConnectUnisatWallet None (Inr (Some [b1\<lparr>wa_publicKey := []\<rparr>])) page0))
       = Some []
   \<and> ordinalPublicKey (snd (onConnectUnisatWallet None (Inr (Some [b1\<lparr>wa_publicKey := []\<rparr>])) page0))
       = Some []
   \<and> fields_populated
        (snd (onConnectUnisatWallet None (Inr (Some [b1\<lparr>wa_publicKey := []\<rparr>])) page0)) = 4"
  by (simp add: onConnectUnisatWallet_def onConnectUnisatWallet_try_def Let_def modal_defs
      provider_defs page0_def b1_def fields_populated_def identity_fields_def paymentAddress_def
      ordinalAddress_def paymentPublicKey_def ordinalPublicKey_def paymentFormat_def
      ordinalFormat_def)

text \<open>
  C4, as amended: a dual-address (Xverse) connect whose returned address list is not
  empty and lacks an entry of format \<open>p2sh-p2wpkh\<close> or lacks one of format
  \<open>taproot\<close> fails with \<open>IncompleteAddressSet\<close>, returns false and leaves the
  store empty. For an empty list the connect fails as well, returns false and leaves
  the store empty, but the error is that of an empty response.
\<close>

theorem xverse_missing_format_fails:
  "(xs \<noteq> [] \<and> (''p2sh-p2wpkh'' \<notin> wa_format ` set xs \<or> ''taproot'' \<notin> wa_format ` set xs) \<longrightarrow>
      onConnectXverseWallet_thrown (Inr (Some xs)) s = Some IncompleteAddressSet
      \<and> \<not> fst (onConnectXverseWallet (Inr (Some xs)) s)
      \<and> store_empty (snd (onConnectXverseWallet (Inr (Some xs)) s))
      \<and> errorMessage (snd (onConnectXverseWallet (Inr (Some xs)) s)) = message IncompleteAddressSet
      \<and> console (snd (onConnectXverseWallet (Inr (Some xs)) s))
          = console s @ [(XVERSE, IncompleteAddressSet)])
   \<and> onConnectXverseWallet_thrown (Inr (Some [])) s = Some (EmptyResponse XVERSE)
   \<and> \<not> fst (onConnectXverseWallet (Inr (Some [])) s)
   \<and> store_empty (snd (onConnectXverseWallet (Inr (Some [])) s))
   \<and> errorMessage (snd (onConnectXverseWallet (Inr (Some [])) s)) = message (EmptyResponse XVERSE)
   \<and> console (snd (onConnectXverseWallet (Inr (Some [])) s))
       = console s @ [(XVERSE, EmptyResponse XVERSE)]"
proof -
  have empty: "onConnectXverseWallet (Inr (Some [])) s
                 = (False, onError XVERSE (EmptyResponse XVERSE) (disconnectWallet
                     (record_call (GetXverseAddresses (network s)) (setErrorMessage [] s))))"
    by (simp add: onConnectXverseWallet_def onConnectXverseWallet_try_def Let_def modal_defs)
  have part2: "onConnectXverseWallet_thrown (Inr (Some [])) s = Some (EmptyResponse XVERSE)
   \<and> \<not> fst (onConnectXverseWallet (Inr (Some [])) s)
   \<and> store_empty (snd (onConnectXverseWallet (Inr (Some [])) s))
   \<and> errorMessage (snd (onConnectXverseWallet (Inr (Some [])) s)) = message (EmptyResponse XVERSE)
   \<and> console (snd (onConnectXverseWallet (Inr (Some [])) s))
       = console s @ [(XVERSE, EmptyResponse XVERSE)]"
    by (simp add: empty xverse_thrown_empty store_empty_onError onError_fields
        disconnectWallet_fields modal_defs)
  have part1: "onConnectXverseWallet_thrown (Inr (Some xs)) s = Some IncompleteAddressSet
      \<and> \<not> fst (onConnectXverseWallet (Inr (Some xs)) s)
      \<and> store_empty (snd (onConnectXverseWallet (Inr (Some xs)) s))
      \<and> errorMessage (snd (onConnectXverseWallet (Inr (Some xs)) s)) = message IncompleteAddressSet
      \<and> console (snd (onConnectXverseWallet (Inr (Some xs)) s))
          = console s @ [(XVERSE, IncompleteAddressSet)]"
    if h: "xs \<noteq> [] \<and> (''p2sh-p2wpkh'' \<notin> wa_format ` set xs \<or> ''taproot'' \<notin> wa_format ` set xs)"
  proof -
    have t: "onConnectXverseWallet_thrown (Inr (Some xs)) s = Some IncompleteAddressSet"
      using h xverse_thrown_incomplete by blast
    then obtain s1 where s1: "console s1 = console s"
      and c: "onConnectXverseWallet (Inr (Some xs)) s = (False, onError XVERSE IncompleteAddressSet s1)"
      using xverse_failure by blast
    show ?thesis
      by (simp add: t c s1 store_empty_onError onError_fields)
  qed
  show ?thesis using part1 part2 by blast
qed

theorem xverse_missing_format_fails_witness:
  "[a1] \<noteq> [] \<and> ''taproot'' \<notin> wa_format ` set [a1]
   \<and> onConnectXverseWallet_thrown (Inr (Some [a1])) page0 = Some IncompleteAddressSet
   \<and> \<not> fst (onConnectXverseWallet (Inr (Some [a1])) page0)
   \<and> store_empty (snd (onConnectXverseWallet (Inr (Some [a1])) page0))
   \<and> errorMessage (snd (onConnectXverseWallet (Inr (Some [a1])) page0))
       = ''Xverse via Ordit did not return P2SH or Taproot addresses.''"
proof -
  have h: "[a1] \<noteq> [] \<and> (''p2sh-p2wpkh'' \<notin> wa_format ` set [a1] \<or> ''taproot'' \<notin> wa_format ` set [a1])"
    by (simp add: a1_def)
  have m: "message IncompleteAddressSet
             = ''Xverse via Ordit did not return P2SH or Taproot addresses.''"
    by (simp add: error_defs)
  show ?thesis
    using h m xverse_missing_format_fails [of "[a1]" page0] by (simp add: a1_def)
qed

text \<open>
  C4 as stated fails on the empty list: it lacks both formats, and the error is the
  one of an empty response, not \<open>IncompleteAddressSet\<close>.
\<close>

theorem xverse_empty_list_counterexample:
  "''p2sh-p2wpkh'' \<notin> wa_format ` set ([] :: WalletAddress list)
   \<and> onConnectXverseWallet_thrown (Inr (Some [])) page0 = Some (EmptyResponse XVERSE)
   \<and> EmptyResponse XVERSE \<noteq> IncompleteAddressSet
   \<and> errorMessage (snd (onConnectXverseWallet (Inr (Some [])) page0))
       = ''Xverse via Ordit returned no addresses.''
   \<and> errorMessage (snd (onConnectXverseWallet (Inr (Some [])) page0))
       \<noteq> message IncompleteAddressSet"
  by (simp add: onConnectXverseWallet_thrown_def onConnectXverseWallet_def
      onConnectXverseWallet_try_def Let_def onError_fields error_defs)

text \<open>
  C5: a single-address (Unisat) connect in which the extension (present on the page)
  returns a non-empty address list returns true and replicates the first entry into
  both sides of the identity: payment and ordinal address, public key and format are
  those of the first entry.
\<close>

theorem unisat_first_entry_replicated:
  assumes "window_unisat s \<noteq> None"
  shows "fst (onConnectUnisatWallet readOnly (Inr (Some (a # as))) s)
   \<and> paymentAddress (snd (onConnectUnisatWallet readOnly (Inr (Some (a # as))) s)) = Some (wa_address a)
   \<and> ordinalAddress (snd (onConnectUnisatWallet readOnly (Inr (Some (a # as))) s)) = Some (wa_address a)
   \<and> paymentPublicKey (snd (onConnectUnisatWallet readOnly (Inr (Some (a # as))) s)) = Some (wa_publicKey a)
   \<and> ordinalPublicKey (snd (onConnectUnisatWallet readOnly (Inr (Some (a # as))) s)) = Some (wa_publicKey a)
   \<and> paymentFormat (snd (onConnectUnisatWallet readOnly (Inr (Some (a # as))) s)) = Some (wa_format a)
   \<and> ordinalFormat (snd (onConnectUnisatWallet readOnly (Inr (Some (a # as))) s)) = Some (wa_format a)
   \<and> wallet (snd (onConnectUnisatWallet readOnly (Inr (Some (a # as))) s)) = Some UNISAT"
proof -
  from assms obtain ls where "window_unisat s = Some ls" by auto
  then show ?thesis
    by (simp add: unisat_success identity_defs)
qed

theorem unisat_first_entry_replicated_witness:
  "window_unisat page0 \<noteq> None
   \<and> fst (onConnectUnisatWallet None (Inr (Some [b1])) page0)
   \<and> paymentAddress (snd (onConnectUnisatWallet None (Inr (Some [b1])) page0)) = Some ''b1''
   \<and> ordinalAddress (snd (onConnectUnisatWallet None (Inr (Some [b1])) page0)) = Some ''b1''
   \<and> paymentPublicKey (snd (onConnectUnisatWallet None (Inr (Some [b1])) page0)) = Some ''pk1''
   \<and> ordinalPublicKey (snd (onConnectUnisatWallet None (Inr (Some [b1])) page0)) = Some ''pk1''
   \<and> paymentFormat (snd (onConnectUnisatWallet None (Inr (Some [b1])) page0)) = Some ''taproot''
   \<and> ordinalFormat (snd (onConnectUnisatWallet None (Inr (Some [b1])) page0)) = Some ''taproot''"
proof -
  have h: "window_unisat page0 \<noteq> None" by (simp add: page0_def)
  show ?thesis
    using h unisat_first_entry_replicated [OF h, of None b1 "[]"] by (simp add: b1_def)
qed







text \<open>
  C8: when the readiness wait of the reconnect on load times out, the flow ends
  disconnected (the store is empty), the read-only connect is not attempted (the
  readiness wait is the only call made), and nothing is thrown: the effect ends after
  \<open>disconnectWallet\<close>.
\<close>

theorem reconnect_timeout_disconnects:
  assumes "reconnect_guard s"
  shows "useEffect_onLoad False r s = disconnectWallet (record_call WaitForUnisatExtensionReady s)
   \<and> store_empty (useEffect_onLoad False r s)
   \<and> calls (useEffect_onLoad False r s) = calls s @ [WaitForUnisatExtensionReady]"
proof -
  have e: "useEffect_onLoad False r s
             = disconnectWallet (record_call WaitForUnisatExtensionReady s)"
    using assms by (simp add: useEffect_onLoad_def connectToUnisatWalletOnLoad_def Let_def)
  show ?thesis
    by (simp add: e store_empty_disconnectWallet disconnectWallet_fields record_call_def)
qed

theorem reconnect_timeout_disconnects_witness:
  "reconnect_guard page_unisat
   \<and> store_empty (useEffect_onLoad False (Inr (Some [b1])) page_unisat)
   \<and> calls (useEffect_onLoad False (Inr (Some [b1])) page_unisat) = [WaitForUnisatExtensionReady]"
proof -
  have g: "reconnect_guard page_unisat"
    by (simp add: reconnect_guard_def page_unisat_def page0_def)
  have c: "calls page_unisat = []" by (simp add: page_unisat_def page0_def)
  show ?thesis
    using g c reconnect_timeout_disconnects [OF g, of "Inr (Some [b1])", THEN conjunct2]
    by simp
qed

text \<open>
  C9, as amended: on the reconnect-on-load path a failure ends in the disconnected
  state and shows no presentation surface: the modal is not opened and, the error not
  being a \<open>BrowserWalletNotInstalledError\<close>, no install page is opened. A readiness
  timeout sets no user-facing error message; a failing read-only connect records the
  message of its error as the user-facing error message.
\<close>

theorem reconnect_failure_effects:
  assumes "reconnect_guard s"
  shows "store_empty (useEffect_onLoad False r s)
   \<and> errorMessage (useEffect_onLoad False r s) = errorMessage s
   \<and> opened (useEffect_onLoad False r s) = opened s
   \<and> isOpen (useEffect_onLoad False r s) = isOpen s
   \<and> (onConnectUnisatWallet_thrown (Some True) r (record_call WaitForUnisatExtensionReady s) = Some err
        \<and> cls err \<noteq> BrowserWalletNotInstalledError
        \<longrightarrow> store_empty (useEffect_onLoad True r s)
          \<and> isOpen (useEffect_onLoad True r s) = isOpen s
          \<and> opened (useEffect_onLoad True r s) = opened s
          \<and> errorMessage (useEffect_onLoad True r s) = message err)"
proof -
  let ?s1 = "record_call WaitForUnisatExtensionReady s"
  have t: "useEffect_onLoad False r s = disconnectWallet ?s1"
    using assms by (simp add: useEffect_onLoad_def connectToUnisatWalletOnLoad_def Let_def)
  have timeout: "store_empty (useEffect_onLoad False r s)
   \<and> errorMessage (useEffect_onLoad False r s) = errorMessage s
   \<and> opened (useEffect_onLoad False r s) = opened s
   \<and> isOpen (useEffect_onLoad False r s) = isOpen s"
    by (simp add: t store_empty_disconnectWallet disconnectWallet_fields record_call_def)
  have failing: "store_empty (useEffect_onLoad True r s)
          \<and> isOpen (useEffect_onLoad True r s) = isOpen s
          \<and> opened (useEffect_onLoad True r s) = opened s
          \<and> errorMessage (useEffect_onLoad True r s) = message err"
    if h: "onConnectUnisatWallet_thrown (Some True) r ?s1 = Some err"
      and n: "cls err \<noteq> BrowserWalletNotInstalledError"
  proof -
    obtain s2 where f: "opened s2 = opened ?s1" "isOpen s2 = isOpen ?s1"
      and c: "onConnectUnisatWallet (Some True) r ?s1 = (False, onError UNISAT err s2)"
      using unisat_failure [OF h] by blast
    have u: "useEffect_onLoad True r s = onError UNISAT err s2"
      using assms by (simp add: useEffect_onLoad_def connectToUnisatWalletOnLoad_def Let_def c)
    show ?thesis
      by (simp add: u store_empty_onError onError_fields f n record_call_def)
  qed
  show ?thesis using timeout failing by blast
qed

theorem reconnect_failure_effects_witness:
  "reconnect_guard page_unisat
   \<and> store_empty (useEffect_onLoad False (Inr (Some [])) page_unisat)
   \<and> errorMessage (useEffect_onLoad False (Inr (Some [])) page_unisat) = []
   \<and> opened (useEffect_onLoad False (Inr (Some [])) page_unisat) = []
   \<and> onConnectUnisatWallet_thrown (Some True) (Inr (Some []))
        (record_call WaitForUnisatExtensionReady page_unisat) = Some (EmptyResponse UNISAT)
   \<and> cls (EmptyResponse UNISAT) \<noteq> BrowserWalletNotInstalledError
   \<and> store_empty (useEffect_onLoad True (Inr (Some [])) page_unisat)
   \<and> opened (useEffect_onLoad True (Inr (Some [])) page_unisat) = []
   \<and> errorMessage (useEffect_onLoad True (Inr (Some [])) page_unisat)
       = ''Unisat via Ordit returned no addresses.''"
proof -
  have g: "reconnect_guard page_unisat"
    by (simp add: reconnect_guard_def page_unisat_def page0_def)
  have h: "onConnectUnisatWallet_thrown (Some True) (Inr (Some []))
             (record_call WaitForUnisatExtensionReady page_unisat) = Some (EmptyResponse UNISAT)"
    by (simp add: onConnectUnisatWallet_thrown_def onConnectUnisatWallet_try_def Let_def)
  have n: "cls (EmptyResponse UNISAT) \<noteq> BrowserWalletNotInstalledError"
    and m: "message (EmptyResponse UNISAT) = ''Unisat via Ordit returned no addresses.''"
    by (simp_all add: error_defs)
  have p: "errorMessage page_unisat = []" "opened page_unisat = []"
    by (simp_all add: page_unisat_def page0_def)
  show ?thesis
    using g h n m p
      reconnect_failure_effects [OF g, of "Inr (Some [])" "EmptyResponse UNISAT"]
    by simp
qed

text \<open>
  C9 as stated fails for a failing read-only connect: with the extension ready and the
  wallet returning no addresses, the error message is set.
\<close>

theorem reconnect_failure_not_silent_counterexample:
  "reconnect_guard page_unisat
   \<and> errorMessage page_unisat = []
   \<and> errorMessage (useEffect_onLoad True (Inr (Some [])) page_unisat)
       = ''Unisat via Ordit returned no addresses.''"
  by (simp add: reconnect_guard_def useEffect_onLoad_def connectToUnisatWalletOnLoad_def
      onConnectUnisatWallet_def onConnectUnisatWallet_try_def Let_def onError_fields
      modal_defs disconnectWallet_fields error_defs page_unisat_def page0_def)



end
